theory Spec2Isabelle
  imports Complex_Main
begin

section \<open>The OTP endpoints of the SkinPilot backend (\<^verbatim>\<open>src/main.py\<close>)\<close>

text \<open>
  The two handlers \<^verbatim>\<open>send_otp\<close> and \<^verbatim>\<open>verify_otp\<close> share one module-level dictionary,
  \<^verbatim>\<open>otp_store = {}\<close>, mapping a phone number to the pair \<^verbatim>\<open>(code, expiry_ts)\<close>. Both are
  \<^verbatim>\<open>async\<close> functions; \<^verbatim>\<open>verify_otp\<close> has no \<^verbatim>\<open>await\<close> at all and \<^verbatim>\<open>send_otp\<close> awaits only
  after its write to the dictionary, so each handler's access to the dictionary is one
  uninterrupted step and a handler is modelled as a function from the state before the
  call to the result and the state after it.

  Everything a handler reads from outside the program is an argument of its model:
  the value of \<^verbatim>\<open>random.randint(0,999999)\<close>, the value of \<^verbatim>\<open>time.time()\<close> and the outcome of
  the HTTP request to the SMS provider.

  Timestamps are Python floats, that is IEEE 754 double-precision numbers. A timestamp is
  modelled by the real number it denotes; comparisons of doubles are exact, and the one
  arithmetic operation on timestamps, the sum \<^verbatim>\<open>time.time() + 5*60\<close>, is the real sum rounded
  to the nearest double, as \<open>float_add\<close> below.
\<close>

subsection \<open>Results of a request\<close>

text \<open>\<^verbatim>\<open>raise HTTPException(status_code=..., detail=...)\<close> is the only way a handler fails.\<close>

datatype http_exception = HTTPException (status_code: nat) (detail: string)

text \<open>
  The JSON bodies returned on success: \<^verbatim>\<open>{'sent': True}\<close> or \<^verbatim>\<open>{'sent': True, 'code': code}\<close>
  for \<^verbatim>\<open>send_otp\<close> (the key \<^verbatim>\<open>'code'\<close> may be absent), \<^verbatim>\<open>{'verified': True}\<close> for \<^verbatim>\<open>verify_otp\<close>.
\<close>

datatype send_response = SendResponse (sent: bool) (code: "string option")

datatype verify_response = VerifyResponse (verified: bool)

subsection \<open>State, configuration and inputs\<close>

text \<open>
  One form-encoded POST to the provider, as \<^verbatim>\<open>client.post(url, data=data, auth=...)\<close> builds
  it. The list \<open>outbox\<close> of the state is the trace of the requests attempted so far.
\<close>

record twilio_post =
  url :: string
  To :: string
  From :: string
  Body :: string
  auth :: "string \<times> string"

record world =
  otp_store :: "string \<rightharpoonup> string \<times> real"
  outbox :: "twilio_post list"

text \<open>The three module constants read with \<^verbatim>\<open>os.getenv\<close>: \<^verbatim>\<open>None\<close> when the variable is unset.\<close>

record config =
  TWILIO_ACCOUNT :: "string option"
  TWILIO_TOKEN :: "string option"
  TWILIO_FROM :: "string option"

text \<open>
  What one call of \<^verbatim>\<open>send_otp\<close> reads from outside: \<open>randint\<close> is the value returned by
  \<^verbatim>\<open>random.randint(0,999999)\<close>, \<open>time_now\<close> the value of \<^verbatim>\<open>time.time()\<close>, and \<open>post_outcome\<close>
  is \<open>None\<close> when the \<^verbatim>\<open>try\<close> block ends normally and \<open>Some e\<close> when it raises an exception
  whose \<^verbatim>\<open>str\<close> is \<open>e\<close> (a transport error, or \<^verbatim>\<open>raise_for_status\<close> on a 4xx/5xx reply).
\<close>

record inputs =
  randint :: int
  time_now :: real
  post_outcome :: "string option"

definition initial :: world where
  "initial = \<lparr>otp_store = Map.empty, outbox = []\<rparr>"

subsection \<open>Double-precision addition\<close>

text \<open>Rounding to the nearest integer, a tie going to the even one.\<close>

definition round_half_even :: "real \<Rightarrow> int" where
  "round_half_even x =
     (let f = \<lfloor>x\<rfloor>
      in if x - of_int f < 1 / 2 then f
         else if 1 / 2 < x - of_int f then f + 1
         else if even f then f else f + 1)"

text \<open>
  The unit in the last place of the doubles around \<open>x\<close>: a double has a 53-bit significand,
  so for \<open>2 ^ e \<le> \<bar>x\<bar> < 2 ^ (e + 1)\<close> neighbouring doubles are \<open>2 ^ (e - 52)\<close> apart; below
  \<open>2 ^ (- 1022)\<close> (the subnormal numbers) the spacing stays \<open>2 ^ (- 1074)\<close>.
\<close>

definition ulp :: "real \<Rightarrow> real" where
  "ulp x = 2 powr of_int (max \<lfloor>log 2 \<bar>x\<bar>\<rfloor> (- 1022) - 52)"

text \<open>
  Rounding of a real number to the nearest double, ties to even (the default IEEE 754
  mode). Overflow to infinity, beyond \<open>2 ^ 1024\<close>, is not modelled: \<^verbatim>\<open>time.time()\<close> counts
  the seconds since 1970.
\<close>

definition double_round :: "real \<Rightarrow> real" where
  "double_round x = of_int (round_half_even (x / ulp x)) * ulp x"

text \<open>\<^verbatim>\<open>x + y\<close> on two floats: the exact sum, rounded. An \<^verbatim>\<open>int\<close> operand such as \<^verbatim>\<open>5*60\<close> is
  converted first, exactly for the integers below \<open>2 ^ 53\<close>.\<close>

definition float_add :: "real \<Rightarrow> real \<Rightarrow> real" where
  "float_add x y = double_round (x + y)"

text \<open>The real numbers that are doubles: the integer multiples of their own \<^const>\<open>ulp\<close>.\<close>

definition representable :: "real \<Rightarrow> bool" where
  "representable x = (of_int \<lfloor>x / ulp x\<rfloor> = x / ulp x)"

subsection \<open>The format specification \<^verbatim>\<open>06d\<close>\<close>

text \<open>The character of a digit \<open>d < 10\<close>; it is only ever applied to such a \<open>d\<close>.\<close>

definition digit_char :: "nat \<Rightarrow> char" where
  "digit_char d = ''0123456789'' ! d"

text \<open>The decimal digits of a natural number, most significant first, with no padding.\<close>

fun decimal :: "nat \<Rightarrow> string" where
  "decimal n = (if n < 10 then [digit_char n] else decimal (n div 10) @ [digit_char (n mod 10)])"

declare decimal.simps [simp del]

definition zero_pad :: "nat \<Rightarrow> string \<Rightarrow> string" where
  "zero_pad w s = replicate (w - length s) CHR ''0'' @ s"

text \<open>
  \<^verbatim>\<open>f"{n:06d}"\<close>: minimum width 6 with sign-aware zero padding, so the sign of a negative
  number comes first and counts in the width, and a number of more than six digits is
  printed in full.
\<close>

definition format_06d :: "int \<Rightarrow> string" where
  "format_06d n =
     (if n < 0 then CHR ''-'' # zero_pad 5 (decimal (nat (- n)))
      else zero_pad 6 (decimal (nat n)))"

subsection \<open>\<^verbatim>\<open>send_otp\<close>\<close>

text \<open>Truth value of an \<^verbatim>\<open>os.getenv\<close> result: \<^verbatim>\<open>None\<close> and the empty string are falsy.\<close>

fun truthy :: "string option \<Rightarrow> bool" where
  "truthy None = False"
| "truthy (Some s) = (s \<noteq> [])"

text \<open>
  The test \<^verbatim>\<open>if TWILIO_ACCOUNT and TWILIO_TOKEN and TWILIO_FROM\<close>, returning the three
  strings when it passes.
\<close>

definition twilio_credentials :: "config \<Rightarrow> (string \<times> string \<times> string) option" where
  "twilio_credentials cfg =
     (case (TWILIO_ACCOUNT cfg, TWILIO_TOKEN cfg, TWILIO_FROM cfg) of
        (Some account, Some token, Some sender) \<Rightarrow>
          if truthy (Some account) \<and> truthy (Some token) \<and> truthy (Some sender)
          then Some (account, token, sender) else None
      | _ \<Rightarrow> None)"

definition send_otp ::
  "config \<Rightarrow> inputs \<Rightarrow> string \<Rightarrow> world \<Rightarrow> (http_exception + send_response) \<times> world" where
  "send_otp cfg inp phone w =
     (if phone = [] then (Inl (HTTPException 400 ''phone required''), w)
      else
        let code = format_06d (randint inp);
            expiry = float_add (time_now inp) (5 * 60);
            w1 = w\<lparr>otp_store := (otp_store w)(phone \<mapsto> (code, expiry))\<rparr>
        in case twilio_credentials cfg of
             Some (account, token, sender) \<Rightarrow>
               let request =
                     \<lparr>url = ''https://api.twilio.com/2010-04-01/Accounts/'' @ account
                              @ ''/Messages.json'',
                      To = phone, From = sender,
                      Body = ''Your SkinPilot OTP is '' @ code,
                      auth = (account, token)\<rparr>;
                   w2 = w1\<lparr>outbox := outbox w1 @ [request]\<rparr>
               in (case post_outcome inp of
                     Some e \<Rightarrow> (Inl (HTTPException 500 (''Twilio send error: '' @ e)), w2)
                   | None \<Rightarrow> (Inr (SendResponse True None), w2))
           | None \<Rightarrow> (Inr (SendResponse True (Some code)), w1))"

subsection \<open>\<^verbatim>\<open>verify_otp\<close>\<close>

text \<open>
  \<^verbatim>\<open>rec = otp_store.get(phone)\<close> is \<^verbatim>\<open>None\<close> or a pair, and a pair is never falsy, so
  \<^verbatim>\<open>if not rec\<close> is the test for a missing key. \<^verbatim>\<open>del otp_store[phone]\<close> cannot raise,
  the key having just been read.
\<close>

definition verify_otp ::
  "real \<Rightarrow> string \<Rightarrow> string \<Rightarrow> world \<Rightarrow> (http_exception + verify_response) \<times> world" where
  "verify_otp now phone submitted w =
     (case otp_store w phone of
        None \<Rightarrow> (Inl (HTTPException 400 ''no otp for phone''), w)
      | Some (saved_code, expiry) \<Rightarrow>
          if now > expiry
          then (Inl (HTTPException 400 ''otp expired''),
                w\<lparr>otp_store := (otp_store w)(phone := None)\<rparr>)
          else if submitted \<noteq> saved_code
          then (Inl (HTTPException 400 ''invalid code''), w)
          else (Inr (VerifyResponse True),
                w\<lparr>otp_store := (otp_store w)(phone := None)\<rparr>))"

subsection \<open>The error names of the specification\<close>

text \<open>
  The specification names the failures \<open>InvalidRequest\<close>, \<open>NoChallenge\<close>, \<open>Expired\<close>,
  \<open>Mismatch\<close> and \<open>DeliveryFailed\<close>; these are the exceptions the source raises for them.
\<close>

definition InvalidRequest :: http_exception where
  "InvalidRequest = HTTPException 400 ''phone required''"

definition NoChallenge :: http_exception where
  "NoChallenge = HTTPException 400 ''no otp for phone''"

definition Expired :: http_exception where
  "Expired = HTTPException 400 ''otp expired''"

definition Mismatch :: http_exception where
  "Mismatch = HTTPException 400 ''invalid code''"

subsection \<open>Sequences of requests\<close>

text \<open>
  A request together with what its handler reads from outside. The server handles the
  requests it receives one after the other from the state \<open>initial\<close>, whatever each
  returns: an \<^verbatim>\<open>HTTPException\<close> ends the request, not the process.
\<close>

datatype request = SendOtp inputs string | VerifyOtp real string string

fun handle :: "config \<Rightarrow> request \<Rightarrow> world \<Rightarrow> world" where
  "handle cfg (SendOtp inp phone) w = snd (send_otp cfg inp phone w)"
| "handle cfg (VerifyOtp now phone submitted) w = snd (verify_otp now phone submitted w)"

fun run :: "config \<Rightarrow> request list \<Rightarrow> world \<Rightarrow> world" where
  "run cfg [] w = w"
| "run cfg (r # rs) w = run cfg rs (handle cfg r w)"

subsection \<open>The error mapping of the \<^verbatim>\<open>chat\<close> handler\<close>

text \<open>Python's \<^verbatim>\<open>sub in s\<close> on strings: \<open>sub\<close> occurs in \<open>s\<close> as a contiguous substring.\<close>

fun py_in :: "string \<Rightarrow> string \<Rightarrow> bool" where
  "py_in sub [] = (sub = [])"
| "py_in sub (c # cs) = (take (length sub) (c # cs) = sub \<or> py_in sub cs)"

text \<open>
  The \<^verbatim>\<open>except Exception as e\<close> branch of \<^verbatim>\<open>chat\<close>, with \<open>msg\<close> the value of \<^verbatim>\<open>str(e)\<close>. Its
  comment reads: ``Log full exception server-side, but return a safer client-facing
  message.''
\<close>

definition chat_error :: "string \<Rightarrow> http_exception" where
  "chat_error msg =
     (if py_in ''invalid_api_key'' msg \<or> py_in ''Incorrect API key'' msg \<or> py_in ''401'' msg
      then HTTPException 502 ''OpenAI authentication error (check server API key)''
      else HTTPException 502 ''OpenAI service error'')"

subsection \<open>The shape of a code\<close>

definition is_digit :: "char \<Rightarrow> bool" where
  "is_digit c = (c \<in> set ''0123456789'')"

text \<open>The strings matched by the regular expression \<^verbatim>\<open>^[0-9]{6}$\<close> of the specification.\<close>

definition six_digits :: "string \<Rightarrow> bool" where
  "six_digits s = (length s = 6 \<and> list_all is_digit s)"

text \<open>The number a string of digits denotes, leading zeros allowed.\<close>

definition digit_value :: "char \<Rightarrow> nat" where
  "digit_value c = of_char c - 48"

definition decimal_value :: "string \<Rightarrow> nat" where
  "decimal_value s = foldl (\<lambda>a c. 10 * a + digit_value c) 0 s"

subsection \<open>Configurations and inputs of the examples\<close>

text \<open>No provider configured: the testing mode, which returns the code in the response.\<close>

definition testing_config :: config where
  "testing_config = \<lparr>TWILIO_ACCOUNT = None, TWILIO_TOKEN = None, TWILIO_FROM = None\<rparr>"

definition twilio_config :: config where
  "twilio_config =
     \<lparr>TWILIO_ACCOUNT = Some ''AC123'', TWILIO_TOKEN = Some ''s3cret'',
      TWILIO_FROM = Some ''+15550000''\<rparr>"

text \<open>A call at time \<open>t\<close> in which the generator draws \<open>n\<close> and the delivery, if any, succeeds.\<close>

definition draw :: "int \<Rightarrow> real \<Rightarrow> inputs" where
  "draw n t = \<lparr>randint = n, time_now = t, post_outcome = None\<rparr>"

text \<open>
  A call in which the provider answers 401 and \<^verbatim>\<open>resp.raise_for_status()\<close> raises; the text
  of that exception names the status and the URL of the request.
\<close>

definition rejected :: inputs where
  "rejected =
     \<lparr>randint = 42017, time_now = 1000,
      post_outcome = Some (''Client error 401 Unauthorized for url ''
        @ ''https://api.twilio.com/2010-04-01/Accounts/AC123/Messages.json'')\<rparr>"

section \<open>Verification\<close>

subsection \<open>Basic facts about the two handlers\<close>

lemmas error_defs = InvalidRequest_def NoChallenge_def Expired_def Mismatch_def

lemma verify_otp_absent:
  "otp_store w phone = None \<Longrightarrow> verify_otp now phone c w = (Inl NoChallenge, w)"
  by (simp add: verify_otp_def NoChallenge_def)

lemma verify_otp_expired:
  "otp_store w phone = Some (saved, expiry) \<Longrightarrow> expiry < now \<Longrightarrow>
   verify_otp now phone c w
     = (Inl Expired, w\<lparr>otp_store := (otp_store w)(phone := None)\<rparr>)"
  by (simp add: verify_otp_def Expired_def)

lemma verify_otp_mismatch:
  "otp_store w phone = Some (saved, expiry) \<Longrightarrow> now \<le> expiry \<Longrightarrow> c \<noteq> saved \<Longrightarrow>
   verify_otp now phone c w = (Inl Mismatch, w)"
  by (simp add: verify_otp_def Mismatch_def)

lemma verify_otp_match:
  "otp_store w phone = Some (saved, expiry) \<Longrightarrow> now \<le> expiry \<Longrightarrow>
   verify_otp now phone saved w
     = (Inr (VerifyResponse True), w\<lparr>otp_store := (otp_store w)(phone := None)\<rparr>)"
  by (simp add: verify_otp_def)

lemma send_otp_store:
  "phone \<noteq> [] \<Longrightarrow>
   otp_store (snd (send_otp cfg inp phone w))
     = (otp_store w)(phone \<mapsto> (format_06d (randint inp), float_add (time_now inp) 300))"
  by (simp add: send_otp_def Let_def split: option.splits)

lemma send_otp_empty:
  "send_otp cfg inp [] w = (Inl InvalidRequest, w)"
  by (simp add: send_otp_def InvalidRequest_def)

subsection \<open>Rounding to a double\<close>

lemma ulp_pos: "0 < ulp x"
  by (simp add: ulp_def)

lemma round_half_even_error: "\<bar>of_int (round_half_even y) - y\<bar> \<le> 1 / 2"
proof -
  have "of_int \<lfloor>y\<rfloor> \<le> y" and "y < of_int \<lfloor>y\<rfloor> + 1" by linarith+
  then show ?thesis
    by (auto simp: round_half_even_def Let_def)
qed

lemma round_half_even_of_int [simp]: "round_half_even (of_int m) = m"
  by (simp add: round_half_even_def)

lemma double_round_error: "\<bar>double_round x - x\<bar> \<le> ulp x / 2"
proof -
  let ?u = "ulp x"
  have u: "0 < ?u" by (rule ulp_pos)
  have "\<bar>of_int (round_half_even (x / ?u)) - x / ?u\<bar> \<le> 1 / 2"
    by (rule round_half_even_error)
  then have "\<bar>of_int (round_half_even (x / ?u)) - x / ?u\<bar> * ?u \<le> 1 / 2 * ?u"
    using u by (intro mult_right_mono) simp_all
  moreover have "\<bar>of_int (round_half_even (x / ?u)) - x / ?u\<bar> * ?u
      = \<bar>of_int (round_half_even (x / ?u)) * ?u - x\<bar>"
  proof -
    have "\<bar>of_int (round_half_even (x / ?u)) - x / ?u\<bar> * ?u
        = \<bar>(of_int (round_half_even (x / ?u)) - x / ?u) * ?u\<bar>"
      using u by (simp add: abs_mult)
    also have "(of_int (round_half_even (x / ?u)) - x / ?u) * ?u
        = of_int (round_half_even (x / ?u)) * ?u - x"
      using u by (simp add: algebra_simps)
    finally show ?thesis .
  qed
  ultimately show ?thesis by (simp add: double_round_def)
qed

lemma ulp_normal:
  assumes "2 powr (- 1022) \<le> \<bar>x\<bar>"
  shows "ulp x \<le> \<bar>x\<bar> / 2 ^ 52"
proof -
  have pos: "0 < \<bar>x\<bar>" using assms by (smt (verit) powr_gt_zero)
  have "(- 1022 :: real) \<le> log 2 \<bar>x\<bar>"
    using assms pos by (simp add: le_log_iff)
  then have "(- 1022 :: int) \<le> \<lfloor>log 2 \<bar>x\<bar>\<rfloor>"
    by (simp add: le_floor_iff)
  then have "max \<lfloor>log 2 \<bar>x\<bar>\<rfloor> (- 1022) = \<lfloor>log 2 \<bar>x\<bar>\<rfloor>"
    by (rule max_absorb1)
  then have "ulp x = 2 powr (of_int \<lfloor>log 2 \<bar>x\<bar>\<rfloor> - 52)"
    by (simp add: ulp_def)
  also have "\<dots> = 2 powr of_int \<lfloor>log 2 \<bar>x\<bar>\<rfloor> / 2 ^ 52"
    by (simp add: powr_diff)
  finally have u: "ulp x = 2 powr of_int \<lfloor>log 2 \<bar>x\<bar>\<rfloor> / 2 ^ 52" .
  have "2 powr of_int \<lfloor>log 2 \<bar>x\<bar>\<rfloor> \<le> 2 powr log 2 \<bar>x\<bar>"
    by (simp del: powr_log_cancel)
  also have "2 powr log 2 \<bar>x\<bar> = \<bar>x\<bar>"
    using pos by simp
  finally have "2 powr of_int \<lfloor>log 2 \<bar>x\<bar>\<rfloor> / 2 ^ 52 \<le> \<bar>x\<bar> / 2 ^ 52"
    by (simp add: divide_right_mono)
  with u show ?thesis by simp
qed

lemma ulp_binade:
  assumes "2 ^ k \<le> x" and "x < 2 ^ Suc k"
  shows "ulp x = 2 powr (of_nat k - 52)"
proof -
  have pos: "0 < x" using assms(1) by (smt (verit) zero_less_power)
  have "\<lfloor>log 2 x\<rfloor> = int k"
    using assms pos by (simp add: floor_log_eq_powr_iff powr_realpow powr_add)
  with pos show ?thesis by (simp add: ulp_def max_def)
qed

lemma double_round_exact:
  assumes "x / ulp x = of_int m"
  shows "double_round x = x"
proof -
  have "double_round x = of_int m * ulp x"
    by (simp add: double_round_def assms)
  also have "\<dots> = x / ulp x * ulp x"
    by (simp add: assms)
  also have "\<dots> = x"
    using ulp_pos [of x] by simp
  finally show ?thesis .
qed

lemma round_half_even_up:
  assumes "of_int f \<le> y" and "y < of_int f + 1" and "1 / 2 < y - of_int f"
  shows "round_half_even y = f + 1"
proof -
  from assms(1,2) have "\<lfloor>y\<rfloor> = f" by (rule floor_unique)
  with assms(3) show ?thesis by (simp add: round_half_even_def Let_def)
qed

lemma round_half_even_down:
  assumes "of_int f \<le> y" and "y - of_int f < 1 / 2"
  shows "round_half_even y = f"
proof -
  from assms have "\<lfloor>y\<rfloor> = f" by (intro floor_unique) simp_all
  with assms(2) show ?thesis by (simp add: round_half_even_def Let_def)
qed

lemma representable_iff: "representable x \<longleftrightarrow> double_round x = x"
proof
  assume "representable x"
  then have "x / ulp x = of_int \<lfloor>x / ulp x\<rfloor>"
    unfolding representable_def by (rule sym)
  then show "double_round x = x" by (rule double_round_exact)
next
  assume "double_round x = x"
  then have "x / ulp x = of_int (round_half_even (x / ulp x))"
    using ulp_pos [of x] by (simp add: double_round_def field_simps)
  then have "of_int \<lfloor>x / ulp x\<rfloor> = x / ulp x"
    by (metis floor_of_int)
  then show "representable x" by (simp add: representable_def)
qed

lemma float_add_300_error:
  assumes "0 \<le> t"
  shows "\<bar>float_add t 300 - (t + 300)\<bar> \<le> (t + 300) / 2 ^ 53"
proof -
  have "(2::real) powr (- 1022) \<le> 2 powr 0" by (intro powr_mono) simp_all
  also have "\<dots> \<le> \<bar>t + 300\<bar>" using assms by simp
  finally have "ulp (t + 300) \<le> \<bar>t + 300\<bar> / 2 ^ 52" by (rule ulp_normal)
  then have "ulp (t + 300) / 2 \<le> (t + 300) / 2 ^ 53" using assms by simp
  with double_round_error [of "t + 300"] show ?thesis
    by (simp add: float_add_def)
qed

text \<open>A challenge has not expired at the time it is issued.\<close>

lemma float_add_300_ge:
  assumes "0 \<le> t" and "t \<le> 2 ^ 53"
  shows "t \<le> float_add t 300"
proof -
  from float_add_300_error [OF assms(1)]
  have "t + 300 - (t + 300) / 2 ^ 53 \<le> float_add t 300" by linarith
  moreover have "(t + 300) / 2 ^ 53 \<le> 300" using assms by simp
  ultimately show ?thesis by linarith
qed

text \<open>
  Between \<open>2 ^ 30\<close> and \<open>2 ^ 31\<close> seconds (from 2004 to 2038) the doubles are \<open>2 ^ (- 22)\<close>
  apart, and adding 300 to one of them gives another one as long as the sum stays below
  \<open>2 ^ 31\<close>: there the sum is exact.
\<close>

lemma float_add_300_exact:
  assumes "representable t" and "2 ^ 30 \<le> t" and "t + 300 < 2 ^ 31"
  shows "float_add t 300 = t + 300"
proof -
  have "ulp t = 2 powr (of_nat 30 - 52)"
    using assms(2,3) by (intro ulp_binade) simp_all
  then have ut: "ulp t = 1 / 2 ^ 22"
    by (simp add: powr_minus_divide)
  have "ulp (t + 300) = 2 powr (of_nat 30 - 52)"
    using assms(2,3) by (intro ulp_binade) simp_all
  then have us: "ulp (t + 300) = 1 / 2 ^ 22"
    by (simp add: powr_minus_divide)
  from assms(1) have "t / ulp t = of_int \<lfloor>t / ulp t\<rfloor>"
    unfolding representable_def by (rule sym)
  then obtain m :: int where "t / ulp t = of_int m" ..
  then have "t * 2 ^ 22 = of_int m"
    by (simp add: ut)
  then have "(t + 300) * 2 ^ 22 = of_int (m + 300 * 2 ^ 22)"
    by (simp add: algebra_simps)
  then have "(t + 300) / ulp (t + 300) = of_int (m + 300 * 2 ^ 22)"
    by (simp add: us)
  then show ?thesis
    unfolding float_add_def by (rule double_round_exact)
qed

text \<open>The sums of the examples.\<close>

lemma float_add_exact:
  assumes "2 ^ k \<le> x + y" and "x + y < 2 ^ Suc k" and "k \<le> 52"
    and "(x + y) * 2 ^ (52 - k) = of_int m"
  shows "float_add x y = x + y"
proof -
  have "ulp (x + y) = 2 powr (of_nat k - 52)"
    using assms(1,2) by (rule ulp_binade)
  also have "real k - 52 = - real (52 - k)"
    using assms(3) by simp
  also have "(2::real) powr (- real (52 - k)) = 1 / 2 ^ (52 - k)"
    by (simp add: powr_minus_divide powr_realpow)
  finally have "(x + y) / ulp (x + y) = of_int m"
    using assms(4) by simp
  then show ?thesis
    unfolding float_add_def by (rule double_round_exact)
qed

lemma float_add_1000: "float_add 1000 300 = 1300"
  using float_add_exact [of 10 1000 300 "1300 * 2 ^ 42"] by simp

lemma float_add_1010: "float_add 1010 300 = 1310"
  using float_add_exact [of 10 1010 300 "1310 * 2 ^ 42"] by simp

text \<open>
  The double nearest to \<open>0.1\<close> is \<open>3602879701896397 / 2 ^ 55\<close>; adding 300 to it gives a
  number between two doubles that are \<open>2 ^ (- 44)\<close> apart.
\<close>

lemma float_add_tenth:
  "float_add (3602879701896397 / 36028797018963968) 300 = 2639707515964621 / 8796093022208"
proof -
  define x :: real where "x = 3602879701896397 / 36028797018963968 + 300"
  have "ulp x = 2 powr (of_nat 8 - 52)"
    unfolding x_def by (rule ulp_binade) simp_all
  then have u: "ulp x = 1 / 2 ^ 44"
    by (simp add: powr_minus_divide)
  have r: "round_half_even (x * 2 ^ 44) = 5279415031929241 + 1"
    unfolding x_def by (rule round_half_even_up) simp_all
  have "double_round x = 5279415031929242 / 2 ^ 44"
    unfolding double_round_def u using r by simp
  then show ?thesis
    unfolding float_add_def x_def by simp
qed

subsection \<open>Decimal formatting\<close>

text \<open>Evaluation of \<^const>\<open>decimal\<close> on numerals, one digit at a time.\<close>

lemma decimal_numeral [simp]:
  "decimal (numeral k) =
     (if numeral k < (10::nat) then [digit_char (numeral k)]
      else decimal (numeral k div 10) @ [digit_char (numeral k mod 10)])"
  by (rule decimal.simps)

lemma decimal_0 [simp]: "decimal 0 = ''0''"
  by (subst decimal.simps) (simp add: digit_char_def)

lemma decimal_1 [simp]: "decimal 1 = ''1''"
  by (subst decimal.simps) (simp add: digit_char_def)

lemma digit_cases: "d < 10 \<Longrightarrow> d \<in> {0, 1, 2, 3, 4, 5, 6, 7, 8, 9::nat}"
  by auto

lemma is_digit_digit_char: "d < 10 \<Longrightarrow> is_digit (digit_char d)"
proof -
  have "\<forall>d \<in> {0, 1, 2, 3, 4, 5, 6, 7, 8, 9::nat}. is_digit (digit_char d)"
    by (simp add: is_digit_def digit_char_def)
  then show "d < 10 \<Longrightarrow> is_digit (digit_char d)"
    using digit_cases by blast
qed

lemma digit_value_digit_char: "d < 10 \<Longrightarrow> digit_value (digit_char d) = d"
proof -
  have "\<forall>d \<in> {0, 1, 2, 3, 4, 5, 6, 7, 8, 9::nat}. digit_value (digit_char d) = d"
    by (simp add: digit_value_def digit_char_def)
  then show "d < 10 \<Longrightarrow> digit_value (digit_char d) = d"
    using digit_cases by blast
qed

lemma decimal_digits: "list_all is_digit (decimal n)"
proof (induction n rule: decimal.induct)
  case (1 n)
  show ?case
  proof (cases "n < 10")
    case True
    then show ?thesis by (simp add: decimal.simps [of n] is_digit_digit_char)
  next
    case False
    with "1" show ?thesis by (simp add: decimal.simps [of n] is_digit_digit_char)
  qed
qed

lemma length_decimal: "0 < k \<Longrightarrow> n < 10 ^ k \<Longrightarrow> length (decimal n) \<le> k"
proof (induction k arbitrary: n)
  case 0
  then show ?case by simp
next
  case (Suc k)
  show ?case
  proof (cases "n < 10")
    case True
    then show ?thesis by (simp add: decimal.simps [of n])
  next
    case False
    with Suc.prems have k: "0 < k" by (cases k) auto
    from Suc.prems have "n div 10 < 10 ^ k"
      by (simp add: less_mult_imp_div_less mult.commute)
    with Suc.IH k have "length (decimal (n div 10)) \<le> k" by simp
    with False show ?thesis by (simp add: decimal.simps [of n])
  qed
qed

lemma decimal_value_snoc: "decimal_value (s @ [c]) = 10 * decimal_value s + digit_value c"
  by (simp add: decimal_value_def)

lemma decimal_value_decimal: "decimal_value (decimal n) = n"
proof (induction n rule: decimal.induct)
  case (1 n)
  show ?case
  proof (cases "n < 10")
    case True
    then show ?thesis
      by (simp add: decimal.simps [of n] decimal_value_def digit_value_digit_char)
  next
    case False
    with "1" show ?thesis
      by (simp add: decimal.simps [of n] decimal_value_snoc digit_value_digit_char)
  qed
qed

lemma decimal_value_zeros: "decimal_value (replicate k CHR ''0'' @ s) = decimal_value s"
proof -
  have "foldl (\<lambda>a c. 10 * a + digit_value c) 0 (replicate k CHR ''0'' @ s)
        = foldl (\<lambda>a c. 10 * a + digit_value c) 0 s" for s
    by (induction k) (simp_all add: digit_value_def)
  then show ?thesis by (simp add: decimal_value_def)
qed

lemma length_zero_pad: "length s \<le> w \<Longrightarrow> length (zero_pad w s) = w"
  by (simp add: zero_pad_def)

lemma is_digit_zero: "is_digit CHR ''0''"
  by (simp add: is_digit_def)

lemma zero_pad_digits: "list_all is_digit s \<Longrightarrow> list_all is_digit (zero_pad w s)"
  by (auto simp: zero_pad_def list_all_iff is_digit_zero)

lemma format_06d_nonneg: "0 \<le> n \<Longrightarrow> format_06d n = zero_pad 6 (decimal (nat n))"
  by (simp add: format_06d_def)

lemma six_digits_format_06d:
  assumes "0 \<le> n" and "n \<le> 999999"
  shows "six_digits (format_06d n)"
proof -
  from assms have "nat n < 10 ^ 6" by simp
  then have "length (decimal (nat n)) \<le> 6"
    by (intro length_decimal) simp_all
  then have "length (format_06d n) = 6"
    using assms(1) by (simp add: format_06d_nonneg length_zero_pad)
  moreover have "list_all is_digit (format_06d n)"
    using assms(1) by (simp add: format_06d_nonneg zero_pad_digits decimal_digits)
  ultimately show ?thesis by (simp add: six_digits_def)
qed

lemma decimal_value_format_06d: "0 \<le> n \<Longrightarrow> int (decimal_value (format_06d n)) = n"
  by (simp add: format_06d_nonneg zero_pad_def decimal_value_zeros decimal_value_decimal)

lemma format_06d_inject:
  assumes "0 \<le> m" and "0 \<le> n" and "format_06d m = format_06d n"
  shows "m = n"
proof -
  from assms(3) have "int (decimal_value (format_06d m)) = int (decimal_value (format_06d n))"
    by simp
  with assms(1,2) show ?thesis by (simp add: decimal_value_format_06d)
qed

lemma send_otp_success_nonempty:
  "send_otp cfg inp phone w = (Inr r, w') \<Longrightarrow> phone \<noteq> []"
  by (auto simp: send_otp_def)

lemma send_otp_testing_response:
  "phone \<noteq> [] \<Longrightarrow> twilio_credentials cfg = None \<Longrightarrow>
   fst (send_otp cfg inp phone w) = Inr (SendResponse True (Some (format_06d (randint inp))))"
  by (simp add: send_otp_def Let_def)

lemma send_otp_delivery_failed:
  "phone \<noteq> [] \<Longrightarrow> twilio_credentials cfg = Some (account, token, sender) \<Longrightarrow>
   post_outcome inp = Some e \<Longrightarrow>
   fst (send_otp cfg inp phone w) = Inl (HTTPException 500 (''Twilio send error: '' @ e))"
  by (simp add: send_otp_def Let_def)

lemma chat_error_generic:
  "chat_error msg = HTTPException 502 ''OpenAI authentication error (check server API key)''
   \<or> chat_error msg = HTTPException 502 ''OpenAI service error''"
  by (simp add: chat_error_def)

lemma verify_otp_dom: "dom (otp_store (snd (verify_otp now phone c w))) \<subseteq> dom (otp_store w)"
  by (auto simp: verify_otp_def split: option.splits if_splits)

lemma verify_otp_keeps_absent:
  "otp_store w k = None \<Longrightarrow> otp_store (snd (verify_otp now phone c w)) k = None"
  by (auto simp: verify_otp_def split: option.splits if_splits)

lemma handle_empty_key:
  "otp_store w [] = None \<Longrightarrow> otp_store (handle cfg r w) [] = None"
proof (cases r)
  case (SendOtp inp phone)
  assume inv: "otp_store w [] = None"
  show ?thesis
  proof (cases "phone = []")
    case True
    with SendOtp inv show ?thesis by (simp add: send_otp_empty)
  next
    case False
    with SendOtp inv show ?thesis by (simp add: send_otp_store)
  qed
next
  case (VerifyOtp now phone c)
  assume "otp_store w [] = None"
  with VerifyOtp show ?thesis by (simp add: verify_otp_keeps_absent)
qed

lemma run_empty_key:
  "otp_store w [] = None \<Longrightarrow> otp_store (run cfg rs w) [] = None"
  by (induction rs arbitrary: w) (simp_all add: handle_empty_key)

subsection \<open>The handlers at the example inputs\<close>

lemma format_06d_42017: "format_06d 42017 = ''042017''"
  by (simp add: format_06d_def zero_pad_def digit_char_def)

lemma twilio_credentials_testing: "twilio_credentials testing_config = None"
  by (simp add: twilio_credentials_def testing_config_def)

lemma send_otp_testing:
  "send_otp testing_config (draw 42017 1000) ''+15550001'' \<lparr>otp_store = Map.empty, outbox = []\<rparr>
     = (Inr (SendResponse True (Some ''042017'')),
        \<lparr>otp_store = [''+15550001'' \<mapsto> (''042017'', 1300)], outbox = []\<rparr>)"
  by (simp add: send_otp_def twilio_credentials_testing draw_def format_06d_42017 Let_def
      float_add_1000)

subsection \<open>Verification without a stored challenge\<close>

text \<open>
  Claim C6. For every identity with no entry in the store (in particular in the initial,
  empty store, before any issue), \<^verbatim>\<open>verify_otp\<close> fails with the exception the specification
  calls \<open>NoChallenge\<close>, whatever the submitted code and the time, and the state after the
  call is the state before it.
\<close>

theorem verify_no_challenge:
  "otp_store w phone = None \<Longrightarrow>
   verify_otp now phone submitted w = (Inl (HTTPException 400 ''no otp for phone''), w)
   \<and> verify_otp now phone submitted w = (Inl NoChallenge, w)
   \<and> verify_otp now phone submitted initial = (Inl NoChallenge, initial)"
  by (simp add: verify_otp_def NoChallenge_def initial_def)

theorem verify_no_challenge_witness:
  "otp_store \<lparr>otp_store = [''+15550002'' \<mapsto> (''777777'', 300)], outbox = []\<rparr> ''+15550001'' = None
   \<and> verify_otp 10 ''+15550001'' ''042017''
        \<lparr>otp_store = [''+15550002'' \<mapsto> (''777777'', 300)], outbox = []\<rparr>
      = (Inl NoChallenge, \<lparr>otp_store = [''+15550002'' \<mapsto> (''777777'', 300)], outbox = []\<rparr>)"
proof -
  let ?w = "\<lparr>otp_store = [''+15550002'' \<mapsto> (''777777'', 300::real)], outbox = []\<rparr>"
  have h: "otp_store ?w ''+15550001'' = None" by simp
  from verify_no_challenge [OF h, of 10 "''042017''"] h show ?thesis
    by (simp add: NoChallenge_def)
qed

subsection \<open>Issue, then verify once\<close>

text \<open>
  Claim C1. For every non-empty identity, after \<^verbatim>\<open>send_otp\<close> has stored a challenge (which
  it does whether or not the delivery succeeds), a \<^verbatim>\<open>verify_otp\<close> with the stored code at
  any time not after the stored expiry returns \<^verbatim>\<open>{'verified': True}\<close> and removes the entry,
  and a second \<^verbatim>\<open>verify_otp\<close> for the same identity with the same code, at any time, fails
  with \<open>NoChallenge\<close> and changes nothing. The stored expiry is the double
  \<^verbatim>\<open>time.time() + 5*60\<close> of the issue.
\<close>

theorem issue_verify_exactly_once:
  "phone \<noteq> [] \<Longrightarrow> now \<le> float_add (time_now inp) 300 \<Longrightarrow>
   (let w1 = snd (send_otp cfg inp phone w);
        stored = format_06d (randint inp);
        (r2, w2) = verify_otp now phone stored w1;
        (r3, w3) = verify_otp now' phone stored w2
    in otp_store w1 phone = Some (stored, float_add (time_now inp) 300)
       \<and> r2 = Inr (VerifyResponse True)
       \<and> w2 = w1\<lparr>otp_store := (otp_store w1)(phone := None)\<rparr>
       \<and> otp_store w2 phone = None
       \<and> r3 = Inl NoChallenge
       \<and> w3 = w2)"
proof -
  assume ne: "phone \<noteq> []" and live: "now \<le> float_add (time_now inp) 300"
  define w1 where "w1 = snd (send_otp cfg inp phone w)"
  define stored where "stored = format_06d (randint inp)"
  define w2 where "w2 = w1\<lparr>otp_store := (otp_store w1)(phone := None)\<rparr>"
  have pending: "otp_store w1 phone = Some (stored, float_add (time_now inp) 300)"
    unfolding w1_def stored_def using ne by (simp add: send_otp_store)
  have first: "verify_otp now phone stored w1 = (Inr (VerifyResponse True), w2)"
    unfolding w2_def using pending live by (rule verify_otp_match)
  have gone: "otp_store w2 phone = None"
    by (simp add: w2_def)
  have second: "verify_otp now' phone stored w2 = (Inl NoChallenge, w2)"
    using gone by (rule verify_otp_absent)
  show ?thesis
    using pending first gone second
    by (simp add: Let_def w1_def [symmetric] stored_def [symmetric] w2_def [symmetric])
qed

theorem issue_verify_exactly_once_witness:
  "''+15550001'' \<noteq> [] \<and> (1010::real) \<le> float_add (time_now (draw 42017 1000)) 300
   \<and> verify_otp 1010 ''+15550001'' ''042017''
        (snd (send_otp testing_config (draw 42017 1000) ''+15550001'' initial))
      = (Inr (VerifyResponse True), initial)
   \<and> verify_otp 1011 ''+15550001'' ''042017'' initial = (Inl NoChallenge, initial)"
proof -
  have h1: "''+15550001'' \<noteq> []" by simp
  have h2: "(1010::real) \<le> float_add (time_now (draw 42017 1000)) 300"
    by (simp add: draw_def float_add_1000)
  from issue_verify_exactly_once [OF h1 h2, where cfg = testing_config and w = initial and now' = 1011]
  show ?thesis
    using h2 by (simp add: send_otp_def twilio_credentials_def testing_config_def draw_def initial_def
        format_06d_def zero_pad_def digit_char_def verify_otp_def error_defs Let_def float_add_1000)
qed

subsection \<open>A wrong code does not consume the challenge\<close>

text \<open>
  Claim C2. For every identity with a pending challenge that has not expired, a
  \<^verbatim>\<open>verify_otp\<close> with a code different from the stored one fails with \<open>Mismatch\<close> and leaves
  the state as it was, so that a following \<^verbatim>\<open>verify_otp\<close> with the stored code, at any time
  not after the expiry, succeeds (and removes the entry).
\<close>

theorem mismatch_keeps_challenge:
  "otp_store w phone = Some (saved, expiry) \<Longrightarrow> now \<le> expiry \<Longrightarrow> submitted \<noteq> saved \<Longrightarrow>
   now' \<le> expiry \<Longrightarrow>
   verify_otp now phone submitted w = (Inl Mismatch, w)
   \<and> otp_store (snd (verify_otp now phone submitted w)) phone = Some (saved, expiry)
   \<and> verify_otp now' phone saved (snd (verify_otp now phone submitted w))
       = (Inr (VerifyResponse True), w\<lparr>otp_store := (otp_store w)(phone := None)\<rparr>)"
proof -
  assume pending: "otp_store w phone = Some (saved, expiry)"
    and live: "now \<le> expiry" and wrong: "submitted \<noteq> saved" and live': "now' \<le> expiry"
  have miss: "verify_otp now phone submitted w = (Inl Mismatch, w)"
    using pending live wrong by (rule verify_otp_mismatch)
  moreover have "verify_otp now' phone saved w
      = (Inr (VerifyResponse True), w\<lparr>otp_store := (otp_store w)(phone := None)\<rparr>)"
    using pending live' by (rule verify_otp_match)
  ultimately show ?thesis
    using pending by simp
qed

theorem mismatch_keeps_challenge_witness:
  "otp_store \<lparr>otp_store = [''+15550001'' \<mapsto> (''042017'', 1300)], outbox = []\<rparr> ''+15550001''
     = Some (''042017'', 1300)
   \<and> (1010::real) \<le> 1300 \<and> ''000000'' \<noteq> ''042017'' \<and> (1020::real) \<le> 1300
   \<and> verify_otp 1010 ''+15550001'' ''000000''
        \<lparr>otp_store = [''+15550001'' \<mapsto> (''042017'', 1300)], outbox = []\<rparr>
      = (Inl Mismatch, \<lparr>otp_store = [''+15550001'' \<mapsto> (''042017'', 1300)], outbox = []\<rparr>)
   \<and> verify_otp 1020 ''+15550001'' ''042017''
        (snd (verify_otp 1010 ''+15550001'' ''000000''
           \<lparr>otp_store = [''+15550001'' \<mapsto> (''042017'', 1300)], outbox = []\<rparr>))
      = (Inr (VerifyResponse True), initial)"
proof -
  let ?w = "\<lparr>otp_store = [''+15550001'' \<mapsto> (''042017'', 1300::real)], outbox = []\<rparr>"
  have h1: "otp_store ?w ''+15550001'' = Some (''042017'', 1300)" by simp
  have h2: "(1010::real) \<le> 1300" by simp
  have h3: "''000000'' \<noteq> ''042017''" by simp
  have h4: "(1020::real) \<le> 1300" by simp
  from mismatch_keeps_challenge [OF h1 h2 h3 h4] show ?thesis
    by (simp add: verify_otp_def error_defs initial_def)
qed

subsection \<open>An expired challenge is reaped\<close>

text \<open>
  Claim C3. For every identity whose stored challenge has an expiry strictly less than
  the current time, \<^verbatim>\<open>verify_otp\<close> with any submitted code (the stored one included) removes
  the entry and fails with \<open>Expired\<close>; any following \<^verbatim>\<open>verify_otp\<close> for that identity, with
  any code (the stored one included) and at any time, fails with \<open>NoChallenge\<close>.
\<close>

theorem expired_is_reaped:
  "otp_store w phone = Some (saved, expiry) \<Longrightarrow> expiry < now \<Longrightarrow>
   verify_otp now phone submitted w
     = (Inl Expired, w\<lparr>otp_store := (otp_store w)(phone := None)\<rparr>)
   \<and> verify_otp now phone saved w
     = (Inl Expired, w\<lparr>otp_store := (otp_store w)(phone := None)\<rparr>)
   \<and> otp_store (snd (verify_otp now phone submitted w)) phone = None
   \<and> verify_otp now' phone submitted' (snd (verify_otp now phone submitted w))
     = (Inl NoChallenge, snd (verify_otp now phone submitted w))
   \<and> verify_otp now' phone saved (snd (verify_otp now phone submitted w))
     = (Inl NoChallenge, snd (verify_otp now phone submitted w))"
proof -
  assume pending: "otp_store w phone = Some (saved, expiry)" and late: "expiry < now"
  let ?w' = "w\<lparr>otp_store := (otp_store w)(phone := None)\<rparr>"
  have reap: "verify_otp now phone c w = (Inl Expired, ?w')" for c
    using pending late by (rule verify_otp_expired)
  have gone: "otp_store ?w' phone = None"
    by simp
  have after: "verify_otp now' phone c ?w' = (Inl NoChallenge, ?w')" for c
    using gone by (rule verify_otp_absent)
  show ?thesis
    by (simp only: reap snd_conv after gone simp_thms)
qed

theorem expired_is_reaped_witness:
  "otp_store \<lparr>otp_store = [''+15550002'' \<mapsto> (''000000'', 1300)], outbox = []\<rparr> ''+15550002''
     = Some (''000000'', 1300)
   \<and> (1300::real) < 1301
   \<and> verify_otp 1301 ''+15550002'' ''000000''
        \<lparr>otp_store = [''+15550002'' \<mapsto> (''000000'', 1300)], outbox = []\<rparr>
      = (Inl Expired, initial)
   \<and> verify_otp 1302 ''+15550002'' ''000000''
        (snd (verify_otp 1301 ''+15550002'' ''000000''
           \<lparr>otp_store = [''+15550002'' \<mapsto> (''000000'', 1300)], outbox = []\<rparr>))
      = (Inl NoChallenge, initial)"
proof -
  let ?w = "\<lparr>otp_store = [''+15550002'' \<mapsto> (''000000'', 1300::real)], outbox = []\<rparr>"
  have h1: "otp_store ?w ''+15550002'' = Some (''000000'', 1300)" by simp
  have h2: "(1300::real) < 1301" by simp
  from expired_is_reaped [OF h1 h2, where submitted = "''000000''" and submitted' = "''000000''"
      and now' = 1302]
  show ?thesis
    by (simp add: verify_otp_def error_defs initial_def)
qed

subsection \<open>The shape of a generated code\<close>

text \<open>
  Claim C7. For every integer \<open>n\<close> in \<open>[0, 999999]\<close>, the range of
  \<^verbatim>\<open>random.randint(0,999999)\<close>, the format \<^verbatim>\<open>06d\<close> yields a string of exactly six decimal
  digits (it matches \<^verbatim>\<open>^[0-9]{6}$\<close>) that denotes \<open>n\<close>, the missing leading digits being
  zeros; and that string is the code \<^verbatim>\<open>send_otp\<close> stores for the identity.
\<close>

theorem generated_code_six_digits:
  "0 \<le> n \<Longrightarrow> n \<le> 999999 \<Longrightarrow>
   six_digits (format_06d n)
   \<and> int (decimal_value (format_06d n)) = n
   \<and> otp_store
         (snd (send_otp cfg \<lparr>randint = n, time_now = t, post_outcome = po\<rparr> (c # cs) w)) (c # cs)
       = Some (format_06d n, float_add t 300)"
  by (simp add: six_digits_format_06d decimal_value_format_06d send_otp_store)

theorem generated_code_six_digits_witness:
  "(0::int) \<le> 42017 \<and> (42017::int) \<le> 999999
   \<and> format_06d 42017 = ''042017'' \<and> six_digits ''042017'' \<and> decimal_value ''042017'' = 42017
   \<and> otp_store
         (snd (send_otp testing_config \<lparr>randint = 42017, time_now = 1000, post_outcome = None\<rparr>
                 ''+15550001'' initial)) ''+15550001''
       = Some (''042017'', 1300)"
proof -
  have h1: "(0::int) \<le> 42017" and h2: "(42017::int) \<le> 999999" by simp_all
  from generated_code_six_digits [OF h1 h2, of testing_config 1000 None "CHR ''+''" "''15550001''" initial]
  show ?thesis by (simp add: format_06d_42017 float_add_1000)
qed

subsection \<open>The time to live\<close>

text \<open>
  Claim C8, as amended. For every \<^verbatim>\<open>send_otp\<close> that succeeds at time \<open>t\<close>, whatever the
  configuration and the request, the expiry stored with the challenge is the double
  \<^verbatim>\<open>time.time() + 5*60\<close>, that is \<open>t + 300\<close> rounded to the nearest double: it is \<open>t + 300\<close>
  whenever \<open>t + 300\<close> is a double, and for \<open>t \<ge> 0\<close> it differs from \<open>t + 300\<close> by at most
  \<open>(t + 300) / 2 ^ 53\<close>.
\<close>

theorem issue_expiry_five_minutes:
  "send_otp cfg inp phone w = (Inr r, w') \<Longrightarrow>
   otp_store w' phone = Some (format_06d (randint inp), double_round (time_now inp + 300))
   \<and> (representable (time_now inp + 300) \<longrightarrow>
        otp_store w' phone = Some (format_06d (randint inp), time_now inp + 300))
   \<and> (0 \<le> time_now inp \<longrightarrow>
        (\<exists>expiry. otp_store w' phone = Some (format_06d (randint inp), expiry)
           \<and> \<bar>expiry - (time_now inp + 300)\<bar> \<le> (time_now inp + 300) / 2 ^ 53))"
proof -
  assume ok: "send_otp cfg inp phone w = (Inr r, w')"
  then have "phone \<noteq> []" by (rule send_otp_success_nonempty)
  then have "otp_store (snd (send_otp cfg inp phone w)) phone
      = Some (format_06d (randint inp), float_add (time_now inp) 300)"
    by (simp add: send_otp_store)
  with ok have stored:
    "otp_store w' phone = Some (format_06d (randint inp), float_add (time_now inp) 300)"
    by simp
  have exact: "float_add (time_now inp) 300 = time_now inp + 300"
    if "representable (time_now inp + 300)"
    using that by (simp add: float_add_def representable_iff)
  have near: "\<bar>float_add (time_now inp) 300 - (time_now inp + 300)\<bar> \<le> (time_now inp + 300) / 2 ^ 53"
    if "0 \<le> time_now inp"
    using that by (rule float_add_300_error)
  show ?thesis
    using stored exact near by (simp add: float_add_def)
qed

theorem issue_expiry_five_minutes_witness:
  "send_otp testing_config (draw 42017 1000) ''+15550001'' initial
     = (Inr (SendResponse True (Some ''042017'')),
        \<lparr>otp_store = [''+15550001'' \<mapsto> (''042017'', 1300)], outbox = []\<rparr>)
   \<and> representable (1000 + 300) \<and> (0::real) \<le> 1000
   \<and> otp_store \<lparr>otp_store = [''+15550001'' \<mapsto> (''042017'', 1300)], outbox = []\<rparr> ''+15550001''
       = Some (''042017'', 1000 + 300)"
proof -
  have h: "send_otp testing_config (draw 42017 1000) ''+15550001'' initial
     = (Inr (SendResponse True (Some ''042017'')),
        \<lparr>otp_store = [''+15550001'' \<mapsto> (''042017'', 1300)], outbox = []\<rparr>)"
    by (simp add: initial_def send_otp_testing)
  have rep: "representable (1000 + 300)"
    using float_add_1000 by (simp add: representable_iff float_add_def)
  from issue_expiry_five_minutes [OF h] h rep show ?thesis
    by (simp add: draw_def format_06d_42017)
qed

text \<open>
  Claim C8 as stated takes the stored expiry to be \<open>t + 300\<close> itself. At the double nearest
  to \<open>0.1\<close> the sum is not a double, and the expiry stored is the neighbouring double above
  it.
\<close>

theorem issue_expiry_rounded_counterexample:
  "send_otp testing_config (draw 42017 (3602879701896397 / 36028797018963968)) ''+15550001'' initial
     = (Inr (SendResponse True (Some ''042017'')),
        \<lparr>otp_store = [''+15550001'' \<mapsto> (''042017'', 2639707515964621 / 8796093022208)],
         outbox = []\<rparr>)
   \<and> (2639707515964621 / 8796093022208 :: real) \<noteq> 3602879701896397 / 36028797018963968 + 300"
  by (simp add: send_otp_def twilio_credentials_testing draw_def initial_def format_06d_42017
      Let_def float_add_tenth)

subsection \<open>The empty identity\<close>

text \<open>
  Claim C9. \<^verbatim>\<open>send_otp\<close> with an empty identity fails with \<open>InvalidRequest\<close>, an exception
  of status 400, before anything is generated or stored: the state after the call is the
  state before it, so the store is unchanged and no request to the provider is attempted.
\<close>

theorem issue_empty_identity_rejected:
  "send_otp cfg inp [] w = (Inl InvalidRequest, w)
   \<and> status_code InvalidRequest = 400
   \<and> otp_store (snd (send_otp cfg inp [] w)) = otp_store w
   \<and> outbox (snd (send_otp cfg inp [] w)) = outbox w"
  by (simp add: send_otp_def InvalidRequest_def)

theorem issue_empty_identity_rejected_witness:
  "send_otp twilio_config (draw 42017 1000) [] initial
     = (Inl (HTTPException 400 ''phone required''), initial)"
  using issue_empty_identity_rejected [of twilio_config "draw 42017 1000" initial]
  by (simp add: InvalidRequest_def)

subsection \<open>The keys of the store\<close>

text \<open>
  Claim C10. Every key of the store is a non-empty identity: in the state reached from
  the empty initial store by any sequence of requests, whatever their inputs and
  results, no entry is keyed by the empty string. This holds because \<^verbatim>\<open>send_otp\<close> with the
  empty identity leaves the store as it is, and \<^verbatim>\<open>verify_otp\<close> only ever removes entries.
\<close>

theorem store_keys_nonempty:
  "(\<forall>k \<in> dom (otp_store (run cfg rs initial)). k \<noteq> [])
   \<and> otp_store (snd (send_otp cfg inp [] w)) = otp_store w
   \<and> dom (otp_store (snd (verify_otp now phone c w))) \<subseteq> dom (otp_store w)"
proof -
  have "otp_store initial [] = None" by (simp add: initial_def)
  then have "otp_store (run cfg rs initial) [] = None" by (rule run_empty_key)
  then have "\<forall>k \<in> dom (otp_store (run cfg rs initial)). k \<noteq> []" by auto
  then show ?thesis by (simp add: send_otp_empty verify_otp_dom)
qed

theorem store_keys_nonempty_witness:
  "dom (otp_store (run testing_config
      [SendOtp (draw 42017 1000) [], SendOtp (draw 42017 1000) ''+15550001'',
       VerifyOtp 1010 [] ''042017''] initial)) = {''+15550001''}
   \<and> ''+15550001'' \<noteq> []"
proof -
  have e: "run testing_config
      [SendOtp (draw 42017 1000) [], SendOtp (draw 42017 1000) ''+15550001'',
       VerifyOtp 1010 [] ''042017''] initial
      = \<lparr>otp_store = [''+15550001'' \<mapsto> (''042017'', 1300)], outbox = []\<rparr>"
    by (simp add: send_otp_empty initial_def send_otp_testing verify_otp_def)
  from store_keys_nonempty [of testing_config
      "[SendOtp (draw 42017 1000) [], SendOtp (draw 42017 1000) ''+15550001'',
        VerifyOtp 1010 [] ''042017'']"]
  have "\<forall>k \<in> dom (otp_store (run testing_config
      [SendOtp (draw 42017 1000) [], SendOtp (draw 42017 1000) ''+15550001'',
       VerifyOtp 1010 [] ''042017''] initial)). k \<noteq> []"
    by (rule conjunct1)
  then show ?thesis unfolding e by simp
qed

subsection \<open>A second issue overwrites the first\<close>

text \<open>
  Claim C5, as amended. For every non-empty identity, after two \<^verbatim>\<open>send_otp\<close> calls in a row
  for it, the store holds exactly one challenge for the identity, the second one (the
  store is the store before the two calls with that one entry written). A \<^verbatim>\<open>verify_otp\<close>
  with the second code, not after the expiry of that challenge, succeeds and removes the
  entry. A \<^verbatim>\<open>verify_otp\<close> with the first code, not after that expiry, fails with \<open>Mismatch\<close>
  and changes nothing if the two codes differ, and succeeds and removes the entry if the
  generator drew the same code twice. The two codes are equal exactly when the two
  numbers drawn are (numbers that are non-negative, as every number in the range of
  \<^verbatim>\<open>random.randint(0,999999)\<close> is).
\<close>

theorem second_issue_overwrites:
  "phone \<noteq> [] \<Longrightarrow>
   (let w2 = snd (send_otp cfg inp2 phone (snd (send_otp cfg inp1 phone w)));
        code1 = format_06d (randint inp1);
        code2 = format_06d (randint inp2);
        expiry2 = float_add (time_now inp2) 300;
        consumed = w2\<lparr>otp_store := (otp_store w2)(phone := None)\<rparr>
    in otp_store w2 = (otp_store w)(phone \<mapsto> (code2, expiry2))
       \<and> (now' \<le> expiry2 \<longrightarrow>
            verify_otp now' phone code2 w2 = (Inr (VerifyResponse True), consumed))
       \<and> (now \<le> expiry2 \<longrightarrow>
            verify_otp now phone code1 w2
              = (if code1 = code2 then (Inr (VerifyResponse True), consumed)
                 else (Inl Mismatch, w2)))
       \<and> (0 \<le> randint inp1 \<longrightarrow> 0 \<le> randint inp2 \<longrightarrow>
            (code1 = code2) = (randint inp1 = randint inp2)))"
proof -
  assume ne: "phone \<noteq> []"
  define w2 where "w2 = snd (send_otp cfg inp2 phone (snd (send_otp cfg inp1 phone w)))"
  define code1 where "code1 = format_06d (randint inp1)"
  define code2 where "code2 = format_06d (randint inp2)"
  define expiry2 where "expiry2 = float_add (time_now inp2) 300"
  define consumed where "consumed = w2\<lparr>otp_store := (otp_store w2)(phone := None)\<rparr>"
  have store: "otp_store w2 = (otp_store w)(phone \<mapsto> (code2, expiry2))"
    unfolding w2_def code2_def expiry2_def using ne by (simp add: send_otp_store)
  then have pending: "otp_store w2 phone = Some (code2, expiry2)"
    by simp
  have hit: "verify_otp t phone code2 w2 = (Inr (VerifyResponse True), consumed)"
    if "t \<le> expiry2" for t
    unfolding consumed_def using pending that by (rule verify_otp_match)
  have miss: "verify_otp t phone code1 w2 = (Inl Mismatch, w2)"
    if "t \<le> expiry2" and "code1 \<noteq> code2" for t
    using pending that by (rule verify_otp_mismatch)
  have first: "verify_otp now phone code1 w2
      = (if code1 = code2 then (Inr (VerifyResponse True), consumed) else (Inl Mismatch, w2))"
    if "now \<le> expiry2"
    using that hit [of now] miss [of now] by (cases "code1 = code2") simp_all
  have codes: "(code1 = code2) = (randint inp1 = randint inp2)"
    if "0 \<le> randint inp1" and "0 \<le> randint inp2"
    unfolding code1_def code2_def using format_06d_inject [OF that] by auto
  show ?thesis
    unfolding Let_def w2_def [symmetric] code1_def [symmetric] code2_def [symmetric]
      expiry2_def [symmetric] consumed_def [symmetric]
    using store hit [of now'] first codes by blast
qed

theorem second_issue_overwrites_witness:
  "''+15550001'' \<noteq> []
   \<and> (1020::real) \<le> float_add (time_now (draw 31337 1010)) 300
   \<and> (0::int) \<le> 42017 \<and> (0::int) \<le> 31337
   \<and> otp_store (snd (send_otp testing_config (draw 31337 1010) ''+15550001''
           (snd (send_otp testing_config (draw 42017 1000) ''+15550001'' initial))))
      = [''+15550001'' \<mapsto> (''031337'', 1310)]
   \<and> verify_otp 1020 ''+15550001'' ''042017''
        (snd (send_otp testing_config (draw 31337 1010) ''+15550001''
           (snd (send_otp testing_config (draw 42017 1000) ''+15550001'' initial))))
      = (Inl Mismatch, \<lparr>otp_store = [''+15550001'' \<mapsto> (''031337'', 1310)], outbox = []\<rparr>)
   \<and> verify_otp 1020 ''+15550001'' ''031337''
        (snd (send_otp testing_config (draw 31337 1010) ''+15550001''
           (snd (send_otp testing_config (draw 42017 1000) ''+15550001'' initial))))
      = (Inr (VerifyResponse True), initial)
   \<and> verify_otp 1020 ''+15550001'' ''042017''
        (snd (send_otp testing_config (draw 42017 1010) ''+15550001''
           (snd (send_otp testing_config (draw 42017 1000) ''+15550001'' initial))))
      = (Inr (VerifyResponse True), initial)"
proof -
  have h1: "''+15550001'' \<noteq> []" by simp
  note different = second_issue_overwrites [OF h1, where cfg = testing_config and w = initial
      and ?inp1.0 = "draw 42017 1000" and ?inp2.0 = "draw 31337 1010" and now = 1020 and now' = 1020]
  note same = second_issue_overwrites [OF h1, where cfg = testing_config and w = initial
      and ?inp1.0 = "draw 42017 1000" and ?inp2.0 = "draw 42017 1010" and now = 1020 and now' = 1020]
  from different same show ?thesis
    by (simp add: send_otp_def twilio_credentials_def testing_config_def draw_def initial_def
        format_06d_def zero_pad_def digit_char_def verify_otp_def error_defs Let_def
        float_add_1000 float_add_1010)
qed

text \<open>
  Claim C5 as stated has no condition on the two codes. The generator draws each code
  independently, so the second call can draw the number the first drew; the first code
  is then the pending code, and a \<^verbatim>\<open>verify_otp\<close> with it succeeds instead of failing with
  \<open>Mismatch\<close>.
\<close>

theorem second_issue_same_code_counterexample:
  "fst (verify_otp 1020 ''+15550001'' (format_06d (randint (draw 42017 1000)))
         (snd (send_otp testing_config (draw 42017 1010) ''+15550001''
            (snd (send_otp testing_config (draw 42017 1000) ''+15550001'' initial)))))
     = Inr (VerifyResponse True)
   \<and> fst (verify_otp 1020 ''+15550001'' (format_06d (randint (draw 42017 1000)))
         (snd (send_otp testing_config (draw 42017 1010) ''+15550001''
            (snd (send_otp testing_config (draw 42017 1000) ''+15550001'' initial)))))
     \<noteq> Inl Mismatch"
  by (simp add: send_otp_def twilio_credentials_def testing_config_def draw_def initial_def
      format_06d_def zero_pad_def digit_char_def verify_otp_def error_defs Let_def
      float_add_1000 float_add_1010)

subsection \<open>The message of a delivery failure\<close>

text \<open>
  Claim C4 at a failing input. With the three provider variables set, a \<^verbatim>\<open>send_otp\<close> whose
  POST is answered 401 raises an exception of status 500 whose \<^verbatim>\<open>detail\<close> is
  \<^verbatim>\<open>f'Twilio send error: {e}'\<close>: it names the provider and carries the text of the
  provider-side exception, which here contains the account identifier
  \<^verbatim>\<open>TWILIO_ACCOUNT\<close>. The challenge stays stored. (The \<^verbatim>\<open>chat\<close> handler of the same file
  maps every exception to one of two fixed messages, see \<open>chat_error_generic\<close>.)
\<close>

theorem delivery_failure_detail_leaks:
  "fst (send_otp twilio_config rejected ''+15550001'' initial)
     = Inl (HTTPException 500
         (''Twilio send error: Client error 401 Unauthorized for url ''
          @ ''https://api.twilio.com/2010-04-01/Accounts/AC123/Messages.json''))
   \<and> py_in ''Twilio''
        (''Twilio send error: Client error 401 Unauthorized for url ''
          @ ''https://api.twilio.com/2010-04-01/Accounts/AC123/Messages.json'')
   \<and> TWILIO_ACCOUNT twilio_config = Some ''AC123''
   \<and> py_in ''AC123''
        (''Twilio send error: Client error 401 Unauthorized for url ''
          @ ''https://api.twilio.com/2010-04-01/Accounts/AC123/Messages.json'')
   \<and> otp_store (snd (send_otp twilio_config rejected ''+15550001'' initial)) ''+15550001''
     = Some (''042017'', 1300)"
  by (simp add: send_otp_def twilio_credentials_def twilio_config_def rejected_def initial_def
      format_06d_42017 Let_def float_add_1000)

end
